theory Spec2Isabelle
  imports Complex_Main
begin

section \<open>The CHSH inequality demonstration\<close>

text \<open>
  A shallow embedding of \<^verbatim>\<open>chsh_inequality.py\<close>. The module builds four two-qubit
  circuits, submits them to a device and turns the four measured distributions into
  correlation values and the CHSH statistic.

  The quantum SDK is a collaborator of the module, not part of it. Its objects are modelled
  by what the module does with them: a circuit is the sequence of gate instructions and the
  sequence of result types that were added to it, a device is a function that is called, a
  task is the value its result carries. Python's floats are idealised as \<^typ>\<open>real\<close>;
  qubit indices are integers, as the callers can pass them.
\<close>

subsection \<open>Exceptions\<close>

text \<open>
  The exceptions that can come up while the module runs: reading an attribute of
  \<^verbatim>\<open>None\<close>, indexing out of range, and \<^verbatim>\<open>ValueError\<close>, which is raised by unpacking a
  sequence whose length is not four and by the SDK when it refuses a qubit.
\<close>

datatype error = AttributeError | IndexError | ValueError

text \<open>Sequencing of statements that can raise: the first exception ends the computation.\<close>

definition and_then :: "error + 'a \<Rightarrow> ('a \<Rightarrow> error + 'b) \<Rightarrow> error + 'b" where
  "and_then r f = (case r of Inl e \<Rightarrow> Inl e | Inr x \<Rightarrow> f x)"

subsection \<open>Circuits\<close>

type_synonym qubit = int

datatype instruction =
    H qubit
  | CNot qubit qubit
  | Ry qubit real

datatype result_type = Probability

record circuit =
  instructions :: "instruction list"
  result_types :: "result_type list"

text \<open>\<^verbatim>\<open>Circuit()\<close>: the empty circuit.\<close>

definition Circuit :: circuit where
  "Circuit = \<lparr>instructions = [], result_types = []\<rparr>"

text \<open>
  The gate methods \<^verbatim>\<open>circ.h(q)\<close>, \<^verbatim>\<open>circ.cnot(c, t)\<close>, \<^verbatim>\<open>circ.ry(q, angle)\<close> append
  one instruction and return the circuit. The SDK checks the qubits first and raises
  \<^verbatim>\<open>ValueError\<close> for an index below zero and for a two-qubit gate whose control and
  target are the same qubit. \<^verbatim>\<open>circ.probability()\<close> appends the result type.
\<close>

definition h :: "qubit \<Rightarrow> circuit \<Rightarrow> error + circuit" where
  "h q circ =
     (if q < 0 then Inl ValueError
      else Inr (circ\<lparr>instructions := instructions circ @ [H q]\<rparr>))"

definition cnot :: "qubit \<Rightarrow> qubit \<Rightarrow> circuit \<Rightarrow> error + circuit" where
  "cnot c t circ =
     (if c < 0 \<or> t < 0 \<or> c = t then Inl ValueError
      else Inr (circ\<lparr>instructions := instructions circ @ [CNot c t]\<rparr>))"

definition ry :: "qubit \<Rightarrow> real \<Rightarrow> circuit \<Rightarrow> error + circuit" where
  "ry q angle circ =
     (if q < 0 then Inl ValueError
      else Inr (circ\<lparr>instructions := instructions circ @ [Ry q angle]\<rparr>))"

definition probability :: "circuit \<Rightarrow> circuit" where
  "probability circ = circ\<lparr>result_types := result_types circ @ [Probability]\<rparr>"

text \<open>
  \<^verbatim>\<open>circ.add(other)\<close>, through which a registered subroutine is applied to a circuit:
  everything of the other circuit is appended.
\<close>

definition add :: "circuit \<Rightarrow> circuit \<Rightarrow> circuit" where
  "add other circ =
     circ\<lparr>instructions := instructions circ @ instructions other,
          result_types := result_types circ @ result_types other\<rparr>"

text \<open>
  \<^verbatim>\<open>
  @circuit.subroutine(register=True)
  def bell_singlet(qubit0, qubit1):
      return Circuit().h(qubit0).cnot(qubit0, qubit1)
  \<close>
\<close>

definition bell_singlet :: "qubit \<Rightarrow> qubit \<Rightarrow> error + circuit" where
  "bell_singlet qubit0 qubit1 = and_then (h qubit0 Circuit) (cnot qubit0 qubit1)"

text \<open>
  \<^verbatim>\<open>
  def bell_singlet_rotated_basis(qubit0, qubit1, rotation0, rotation1):
      circ = Circuit().bell_singlet(qubit0, qubit1)
      if rotation0 != 0:
          circ.ry(qubit0, rotation0)
      circ.probability()
      return circ
  \<close>
  The body never reads \<^verbatim>\<open>rotation1\<close>.
\<close>

definition bell_singlet_rotated_basis ::
  "qubit \<Rightarrow> qubit \<Rightarrow> real \<Rightarrow> real \<Rightarrow> error + circuit" where
  "bell_singlet_rotated_basis qubit0 qubit1 rotation0 rotation1 =
     and_then (bell_singlet qubit0 qubit1) (\<lambda>sub.
     let circ = add sub Circuit in
     and_then (if rotation0 \<noteq> 0 then ry qubit0 rotation0 circ else Inr circ) (\<lambda>circ.
     Inr (probability circ)))"

text \<open>
  \<^verbatim>\<open>
  def create_chsh_inequality_circuits(qubit0=0, qubit1=1, a=0, a_=2*np.pi/8,
                                      b=np.pi/8, b_=3*np.pi/8):
      circ_ab = bell_singlet_rotated_basis(qubit0, qubit1, a, b)
      circ_ab_ = bell_singlet_rotated_basis(qubit0, qubit1, a, b_).h(qubit1)
      circ_a_b = bell_singlet_rotated_basis(qubit0, qubit1, a_, b).h(qubit0)
      circ_a_b_ = bell_singlet_rotated_basis(qubit0, qubit1, a_, b_).h(qubit0).h(qubit1)
      return [circ_ab, circ_ab_, circ_a_b, circ_a_b_]
  \<close>
  A trailing underscore of the source is written as a prime: \<open>a'\<close> is \<^verbatim>\<open>a_\<close>,
  \<open>circ_a'b\<close> is \<^verbatim>\<open>circ_a_b\<close>.
\<close>

definition create_chsh_inequality_circuits ::
  "qubit \<Rightarrow> qubit \<Rightarrow> real \<Rightarrow> real \<Rightarrow> real \<Rightarrow> real \<Rightarrow> error + circuit list" where
  "create_chsh_inequality_circuits qubit0 qubit1 a a' b b' =
     and_then (bell_singlet_rotated_basis qubit0 qubit1 a b) (\<lambda>circ_ab.
     and_then (and_then (bell_singlet_rotated_basis qubit0 qubit1 a b') (h qubit1)) (\<lambda>circ_ab'.
     and_then (and_then (bell_singlet_rotated_basis qubit0 qubit1 a' b) (h qubit0)) (\<lambda>circ_a'b.
     and_then (and_then (and_then (bell_singlet_rotated_basis qubit0 qubit1 a' b') (h qubit0))
                 (h qubit1)) (\<lambda>circ_a'b'.
     Inr [circ_ab, circ_ab', circ_a'b, circ_a'b']))))"

text \<open>The call with every argument left at its default.\<close>

definition create_chsh_inequality_circuits_default :: "error + circuit list" where
  "create_chsh_inequality_circuits_default =
     create_chsh_inequality_circuits 0 1 0 (2 * pi / 8) (pi / 8) (3 * pi / 8)"

text \<open>The rotation gates of a circuit, as pairs of qubit and angle, in program order.\<close>

fun rotation_of :: "instruction \<Rightarrow> (qubit \<times> real) list" where
  "rotation_of (Ry q angle) = [(q, angle)]"
| "rotation_of (H q) = []"
| "rotation_of (CNot c t) = []"

definition rotations :: "circuit \<Rightarrow> (qubit \<times> real) list" where
  "rotations circ = concat (map rotation_of (instructions circ))"

subsection \<open>Task submission\<close>

text \<open>
  \<^verbatim>\<open>
  def run_chsh_inequality(circuits, device, shots=1_000):
      tasks = [device.run(circ, shots=shots) for circ in circuits]
      return tasks
  \<close>
  The device is the collaborator: \<open>run\<close> takes the device's state, a circuit and the shot
  count and gives the task handle and the device's next state. The comprehension calls it
  on the circuits from left to right, each call in the state the previous one left.
\<close>

fun run_chsh_inequality ::
  "('d \<Rightarrow> circuit \<Rightarrow> int \<Rightarrow> 't \<times> 'd) \<Rightarrow> circuit list \<Rightarrow> 'd \<Rightarrow> int \<Rightarrow> 't list \<times> 'd" where
  "run_chsh_inequality run [] device shots = ([], device)"
| "run_chsh_inequality run (circ # circuits) device shots =
     (let (task, device1) = run device circ shots;
          (tasks, device2) = run_chsh_inequality run circuits device1 shots
      in (task # tasks, device2))"

text \<open>
  A device that keeps a journal of the calls it receives next to its own state: each call
  of \<open>run\<close> is recorded with its circuit, its shot count and the handle it gave back.
\<close>

definition journalled ::
  "('d \<Rightarrow> circuit \<Rightarrow> int \<Rightarrow> 't \<times> 'd) \<Rightarrow>
   ('d \<times> (circuit \<times> int \<times> 't) list) \<Rightarrow> circuit \<Rightarrow> int \<Rightarrow> 't \<times> ('d \<times> (circuit \<times> int \<times> 't) list)" where
  "journalled run = (\<lambda>(device, journal) circ shots.
     let (task, device1) = run device circ shots
     in (task, (device1, journal @ [(circ, shots, task)])))"

subsection \<open>Result aggregation\<close>

text \<open>
  A distribution is the value of a probability result type: the sequence of outcome
  probabilities, indexed by the outcome (0 for 00, 1 for 01, 2 for 10, 3 for 11).
\<close>

type_synonym distribution = "real list"

text \<open>
  A task handle is modelled by what \<^verbatim>\<open>task.result()\<close> gives: \<^verbatim>\<open>None\<close>, or a result
  object, of which only the values of its result types are read.
\<close>

datatype quantum_task = QuantumTask (result: "distribution list option")

text \<open>\<^verbatim>\<open>task.result().result_types[0].value\<close>\<close>

fun first_value :: "quantum_task \<Rightarrow> error + distribution" where
  "first_value (QuantumTask None) = Inl AttributeError"
| "first_value (QuantumTask (Some [])) = Inl IndexError"
| "first_value (QuantumTask (Some (d # ds))) = Inr d"

text \<open>
  \<^verbatim>\<open>[f(x) for x in xs]\<close> where \<open>f\<close> may raise: the elements are evaluated from left to
  right and the first exception ends the comprehension.
\<close>

fun comprehension :: "('a \<Rightarrow> error + 'b) \<Rightarrow> 'a list \<Rightarrow> error + 'b list" where
  "comprehension f [] = Inr []"
| "comprehension f (x # xs) =
     (case f x of
        Inl e \<Rightarrow> Inl e
      | Inr y \<Rightarrow> (case comprehension f xs of Inl e \<Rightarrow> Inl e | Inr ys \<Rightarrow> Inr (y # ys)))"

text \<open>\<^verbatim>\<open>d[i]\<close> for an index \<open>i\<close> that is not negative.\<close>

definition item :: "distribution \<Rightarrow> nat \<Rightarrow> error + real" where
  "item d i = (if i < length d then Inr (d ! i) else Inl IndexError)"

text \<open>\<^verbatim>\<open>d[i] + d[j]\<close>, the left operand read first.\<close>

definition item_sum :: "nat \<Rightarrow> nat \<Rightarrow> distribution \<Rightarrow> error + real" where
  "item_sum i j d =
     (case item d i of
        Inl e \<Rightarrow> Inl e
      | Inr x \<Rightarrow> (case item d j of Inl e \<Rightarrow> Inl e | Inr y \<Rightarrow> Inr (x + y)))"

text \<open>
  What \<^verbatim>\<open>print\<close> writes. The two formatted lines are kept as the numbers they show; the
  fixed lines are kept as their text.
\<close>

datatype printed =
    Expectations real real real real
  | Inequality real
  | Text string

text \<open>
  \<^verbatim>\<open>
  def get_chsh_results(tasks, verbose=True):
      results = [task.result().result_types[0].value for task in tasks]
      prob_same = np.array([d[0] + d[3] for d in results])  # 00 and 11 states
      prob_different = np.array([d[1] + d[2] for d in results])  # 01 and 10 states
      E_ab, E_ab_, E_a_b, E_a_b_ = np.array(prob_same) - np.array(prob_different)
      chsh_value = E_ab - E_ab_ + E_a_b + E_a_b_
      if verbose:
          print(f"E(a,b) = {E_ab},E(a,b') = {E_ab_}, E(a',b) = {E_a_b}, E(a',b') = {E_a_b_}")
          print(f"\nCHSH inequality: {chsh_value} <= 2")
          if chsh_value > 2:
              print("CHSH inequality is violated!")
              print("Notice that the quantity may not be exactly as predicted by Quantum theory. "
                    "This is may be due to finite shots or the effects of noise on the QPU.")
          else:
              print("CHSH inequality is not violated.")
      return chsh_value, results, E_ab, E_ab_, E_a_b, E_a_b_
  \<close>
  The standard output is a state: the function takes what has been printed so far and
  returns it with its own lines appended. Nothing is printed when an exception is raised,
  since every statement that can raise comes before the first \<^verbatim>\<open>print\<close>.
\<close>

definition report :: "real \<Rightarrow> real \<Rightarrow> real \<Rightarrow> real \<Rightarrow> real \<Rightarrow> printed list" where
  "report chsh_value E_ab E_ab' E_a'b E_a'b' =
     [Expectations E_ab E_ab' E_a'b E_a'b', Inequality chsh_value] @
     (if chsh_value > 2
      then [Text ''CHSH inequality is violated!'',
            Text (''Notice that the quantity may not be exactly as predicted by Quantum theory. '' @
                  ''This is may be due to finite shots or the effects of noise on the QPU.'')]
      else [Text ''CHSH inequality is not violated.''])"

type_synonym chsh_results = "real \<times> distribution list \<times> real \<times> real \<times> real \<times> real"

definition get_chsh_results ::
  "quantum_task list \<Rightarrow> bool \<Rightarrow> printed list \<Rightarrow> (error + chsh_results) \<times> printed list" where
  "get_chsh_results tasks verbose stdout =
     (case comprehension first_value tasks of
        Inl e \<Rightarrow> (Inl e, stdout)
      | Inr results \<Rightarrow>
     (case comprehension (item_sum 0 3) results of
        Inl e \<Rightarrow> (Inl e, stdout)
      | Inr prob_same \<Rightarrow>
     (case comprehension (item_sum 1 2) results of
        Inl e \<Rightarrow> (Inl e, stdout)
      | Inr prob_different \<Rightarrow>
     (case map2 (-) prob_same prob_different of
        [E_ab, E_ab', E_a'b, E_a'b'] \<Rightarrow>
          (let chsh_value = E_ab - E_ab' + E_a'b + E_a'b'
           in (Inr (chsh_value, results, E_ab, E_ab', E_a'b, E_a'b'),
               if verbose then stdout @ report chsh_value E_ab E_ab' E_a'b E_a'b' else stdout))
      | _ \<Rightarrow> (Inl ValueError, stdout)))))"

text \<open>A completed task whose first result type has the value \<open>d\<close>.\<close>

definition completed :: "distribution \<Rightarrow> quantum_task" where
  "completed d = QuantumTask (Some [d])"

subsection \<open>The local simulator and the end-to-end run\<close>

text \<open>
  The SDK's local simulator is not part of the module. Its exact mode (\<^verbatim>\<open>shots=0\<close>) on
  a circuit over the two qubits 0 and 1 is modelled by the textbook matrices of the three
  gates. A state is the four amplitudes of 00, 01, 10 and 11, qubit 0 being the left bit;
  the three gates have real matrices, so real amplitudes suffice. The run starts in 00.
\<close>

type_synonym state = "real \<times> real \<times> real \<times> real"

type_synonym matrix = "real \<times> real \<times> real \<times> real"

text \<open>A one-qubit gate with the matrix rows \<open>(m00, m01)\<close> and \<open>(m10, m11)\<close>.\<close>

fun on_qubit0 :: "matrix \<Rightarrow> state \<Rightarrow> state" where
  "on_qubit0 (m00, m01, m10, m11) (s00, s01, s10, s11) =
     (m00 * s00 + m01 * s10, m00 * s01 + m01 * s11,
      m10 * s00 + m11 * s10, m10 * s01 + m11 * s11)"

fun on_qubit1 :: "matrix \<Rightarrow> state \<Rightarrow> state" where
  "on_qubit1 (m00, m01, m10, m11) (s00, s01, s10, s11) =
     (m00 * s00 + m01 * s01, m10 * s00 + m11 * s01,
      m00 * s10 + m01 * s11, m10 * s10 + m11 * s11)"

definition hadamard :: matrix where
  "hadamard = (1 / sqrt 2, 1 / sqrt 2, 1 / sqrt 2, - (1 / sqrt 2))"

definition y_rotation :: "real \<Rightarrow> matrix" where
  "y_rotation angle = (cos (angle / 2), - sin (angle / 2), sin (angle / 2), cos (angle / 2))"

text \<open>One instruction; \<open>None\<close> for a qubit other than 0 and 1.\<close>

fun apply_instruction :: "instruction \<Rightarrow> state \<Rightarrow> state option" where
  "apply_instruction (H q) s =
     (if q = 0 then Some (on_qubit0 hadamard s)
      else if q = 1 then Some (on_qubit1 hadamard s) else None)"
| "apply_instruction (Ry q angle) s =
     (if q = 0 then Some (on_qubit0 (y_rotation angle) s)
      else if q = 1 then Some (on_qubit1 (y_rotation angle) s) else None)"
| "apply_instruction (CNot c t) (s00, s01, s10, s11) =
     (if c = 0 \<and> t = 1 then Some (s00, s01, s11, s10)
      else if c = 1 \<and> t = 0 then Some (s00, s11, s10, s01) else None)"

fun simulate :: "instruction list \<Rightarrow> state \<Rightarrow> state option" where
  "simulate [] s = Some s"
| "simulate (i # rest) s =
     (case apply_instruction i s of None \<Rightarrow> None | Some s' \<Rightarrow> simulate rest s')"

fun probabilities :: "state \<Rightarrow> distribution" where
  "probabilities (s00, s01, s10, s11) = [s00 * s00, s01 * s01, s10 * s10, s11 * s11]"

text \<open>
  \<^verbatim>\<open>LocalSimulator().run(circ, shots=0)\<close>: the task's result holds one value for each
  result type of the circuit, the exact distribution of the final state. The simulator
  keeps no state between runs.
\<close>

definition LocalSimulator_run :: "unit \<Rightarrow> circuit \<Rightarrow> int \<Rightarrow> quantum_task \<times> unit" where
  "LocalSimulator_run device circ shots =
     (QuantumTask
        (case simulate (instructions circ) (1, 0, 0, 0) of
           None \<Rightarrow> None
         | Some s \<Rightarrow> Some (map (\<lambda>r. probabilities s) (result_types circ))),
      device)"

text \<open>
  The end-to-end run of the unit tests:
  \<^verbatim>\<open>
  def test_get_chsh_results():
      circuits = create_chsh_inequality_circuits()
      local_tasks = run_chsh_inequality(circuits, LocalSimulator(), shots=0)
      chsh_value, results, E_ab, E_ab_, E_a_b, E_a_b_ = get_chsh_results(local_tasks)
      assert len(results) == 4
  \<close>
  The model gives back what \<^verbatim>\<open>get_chsh_results\<close> returned there.
\<close>

definition test_get_chsh_results :: "printed list \<Rightarrow> (error + chsh_results) \<times> printed list" where
  "test_get_chsh_results stdout =
     (case create_chsh_inequality_circuits_default of
        Inl e \<Rightarrow> (Inl e, stdout)
      | Inr circuits \<Rightarrow>
          (let local_tasks = fst (run_chsh_inequality LocalSimulator_run circuits () 0)
           in get_chsh_results local_tasks True stdout))"

section \<open>Properties\<close>

subsection \<open>Auxiliary facts about the aggregator\<close>

lemma comprehension_InrD: "comprehension f xs = Inr ys \<Longrightarrow> map f xs = map Inr ys"
  by (induction xs arbitrary: ys) (auto split: sum.splits)

lemma comprehension_InrI: "map f xs = map Inr ys \<Longrightarrow> comprehension f xs = Inr ys"
  by (induction xs arbitrary: ys) auto

lemma comprehension_Inr: "comprehension f xs = Inr ys \<longleftrightarrow> map f xs = map Inr ys"
  using comprehension_InrD comprehension_InrI by blast

lemma item_sum_Inr:
  "item_sum i j d = Inr s \<longleftrightarrow> i < length d \<and> j < length d \<and> s = d ! i + d ! j"
  by (auto simp: item_sum_def item_def)

lemma comprehension_item_sum:
  "(\<And>d. d \<in> set ds \<Longrightarrow> i < length d \<and> j < length d) \<Longrightarrow>
   comprehension (item_sum i j) ds = Inr (map (\<lambda>d. d ! i + d ! j) ds)"
  by (induction ds) (auto simp: item_sum_def item_def)

lemma comprehension_item_sum_Inr:
  "comprehension (item_sum i j) ds = Inr ss \<Longrightarrow>
   ss = map (\<lambda>d. d ! i + d ! j) ds \<and> (\<forall>d \<in> set ds. i < length d \<and> j < length d)"
proof (induction ds arbitrary: ss)
  case Nil
  then show ?case by simp
next
  case (Cons d ds)
  then show ?case by (auto split: sum.splits simp: item_sum_Inr)
qed

lemma get_chsh_results_four:
  assumes "map first_value tasks = map Inr [d0, d1, d2, d3]"
    and "4 \<le> length d0" "4 \<le> length d1" "4 \<le> length d2" "4 \<le> length d3"
  shows "get_chsh_results tasks verbose stdout =
    (Inr ((d0 ! 0 + d0 ! 3 - (d0 ! 1 + d0 ! 2)) - (d1 ! 0 + d1 ! 3 - (d1 ! 1 + d1 ! 2))
          + (d2 ! 0 + d2 ! 3 - (d2 ! 1 + d2 ! 2)) + (d3 ! 0 + d3 ! 3 - (d3 ! 1 + d3 ! 2)),
          [d0, d1, d2, d3],
          d0 ! 0 + d0 ! 3 - (d0 ! 1 + d0 ! 2), d1 ! 0 + d1 ! 3 - (d1 ! 1 + d1 ! 2),
          d2 ! 0 + d2 ! 3 - (d2 ! 1 + d2 ! 2), d3 ! 0 + d3 ! 3 - (d3 ! 1 + d3 ! 2)),
     if verbose then stdout @ report
         ((d0 ! 0 + d0 ! 3 - (d0 ! 1 + d0 ! 2)) - (d1 ! 0 + d1 ! 3 - (d1 ! 1 + d1 ! 2))
          + (d2 ! 0 + d2 ! 3 - (d2 ! 1 + d2 ! 2)) + (d3 ! 0 + d3 ! 3 - (d3 ! 1 + d3 ! 2)))
         (d0 ! 0 + d0 ! 3 - (d0 ! 1 + d0 ! 2)) (d1 ! 0 + d1 ! 3 - (d1 ! 1 + d1 ! 2))
         (d2 ! 0 + d2 ! 3 - (d2 ! 1 + d2 ! 2)) (d3 ! 0 + d3 ! 3 - (d3 ! 1 + d3 ! 2))
     else stdout)"
proof -
  have r: "comprehension first_value tasks = Inr [d0, d1, d2, d3]"
    using assms(1) by (simp only: comprehension_Inr)
  have s: "comprehension (item_sum 0 3) [d0, d1, d2, d3] =
      Inr (map (\<lambda>d. d ! 0 + d ! 3) [d0, d1, d2, d3])"
    using assms(2-) by (intro comprehension_item_sum) auto
  have t: "comprehension (item_sum 1 2) [d0, d1, d2, d3] =
      Inr (map (\<lambda>d. d ! 1 + d ! 2) [d0, d1, d2, d3])"
    using assms(2-) by (intro comprehension_item_sum) auto
  show ?thesis
    unfolding get_chsh_results_def r sum.case s t by (simp add: Let_def)
qed

lemma get_chsh_results_InrD:
  assumes "get_chsh_results tasks verbose stdout = (Inr (c, rs, e0, e1, e2, e3), stdout')"
  shows "\<exists>d0 d1 d2 d3. rs = [d0, d1, d2, d3] \<and> map first_value tasks = map Inr rs \<and>
     4 \<le> length d0 \<and> 4 \<le> length d1 \<and> 4 \<le> length d2 \<and> 4 \<le> length d3"
proof -
  obtain rs' where r': "comprehension first_value tasks = Inr rs'"
    using assms by (cases "comprehension first_value tasks") (auto simp: get_chsh_results_def)
  obtain ps where s': "comprehension (item_sum 0 3) rs' = Inr ps"
    using assms r'
    by (cases "comprehension (item_sum 0 3) rs'") (auto simp: get_chsh_results_def)
  obtain pd where t': "comprehension (item_sum 1 2) rs' = Inr pd"
    using assms r' s'
    by (cases "comprehension (item_sum 1 2) rs'") (auto simp: get_chsh_results_def)
  have "rs' = rs \<and> length (zip ps pd) = 4"
    using assms unfolding get_chsh_results_def r' s' t' sum.case
    by (auto simp: Let_def simp del: length_zip split: list.splits)
  with r' s' t' have
    r: "comprehension first_value tasks = Inr rs" and
    s: "comprehension (item_sum 0 3) rs = Inr ps" and
    t: "comprehension (item_sum 1 2) rs = Inr pd" and
    u: "length (zip ps pd) = 4"
    by auto
  from comprehension_item_sum_Inr[OF s] comprehension_item_sum_Inr[OF t] u
  have len: "length rs = 4" and all: "\<forall>d \<in> set rs. 3 < length d" by auto
  from len obtain d0 d1 d2 d3 where rs: "rs = [d0, d1, d2, d3]"
    by (auto simp: length_Suc_conv numeral_eq_Suc)
  with all r show ?thesis by (auto simp: comprehension_Inr)
qed

lemma get_chsh_results_stdout:
  "get_chsh_results tasks verbose stdout =
     (fst (get_chsh_results tasks verbose []), stdout @ snd (get_chsh_results tasks verbose []))"
  by (auto simp: get_chsh_results_def Let_def split: sum.splits list.splits)

subsection \<open>Auxiliary facts about task submission\<close>

lemma run_journalled:
  "run_chsh_inequality (journalled run) circuits (device, journal) shots =
     (fst (run_chsh_inequality run circuits device shots),
      snd (run_chsh_inequality run circuits device shots),
      journal @ map (\<lambda>(circ, task). (circ, shots, task))
        (zip circuits (fst (run_chsh_inequality run circuits device shots))))"
proof (induction circuits arbitrary: device journal)
  case Nil
  show ?case by simp
next
  case (Cons circ circuits)
  obtain task device1 where step: "run device circ shots = (task, device1)"
    by (cases "run device circ shots")
  have j: "journalled run (device, journal) circ shots =
      (task, (device1, journal @ [(circ, shots, task)]))"
    by (simp add: journalled_def step)
  show ?case
    by (simp add: j step Cons.IH split_beta)
qed

lemma run_length: "length (fst (run_chsh_inequality run circuits device shots)) = length circuits"
  by (induction circuits arbitrary: device) (auto simp: split_beta)

subsection \<open>Auxiliary facts about the circuit set builder\<close>

lemma bell_singlet_rotated_basis_eq:
  "bell_singlet_rotated_basis qubit0 qubit1 rotation0 rotation1 =
     (if qubit0 < 0 \<or> qubit1 < 0 \<or> qubit0 = qubit1 then Inl ValueError
      else Inr \<lparr>instructions =
                  [H qubit0, CNot qubit0 qubit1] @
                  (if rotation0 = 0 then [] else [Ry qubit0 rotation0]),
                result_types = [Probability]\<rparr>)"
  by (simp add: bell_singlet_rotated_basis_def bell_singlet_def and_then_def add_def
      probability_def ry_def cnot_def h_def Circuit_def Let_def)

lemma default_circuits:
  "create_chsh_inequality_circuits_default =
     Inr [\<lparr>instructions = [H 0, CNot 0 1], result_types = [Probability]\<rparr>,
          \<lparr>instructions = [H 0, CNot 0 1, H 1], result_types = [Probability]\<rparr>,
          \<lparr>instructions = [H 0, CNot 0 1, Ry 0 (2 * pi / 8), H 0],
           result_types = [Probability]\<rparr>,
          \<lparr>instructions = [H 0, CNot 0 1, Ry 0 (2 * pi / 8), H 0, H 1],
           result_types = [Probability]\<rparr>]"
  by (simp add: create_chsh_inequality_circuits_default_def create_chsh_inequality_circuits_def
      bell_singlet_rotated_basis_eq and_then_def h_def)

subsection \<open>Auxiliary facts about the simulated default run\<close>

lemma half: "x / sqrt 2 / sqrt 2 = x / 2"
  by (simp add: field_simps)

lemma eighth_angle:
  "2 * sin (pi / 8) * cos (pi / 8) = sqrt 2 / 2"
  "cos (pi / 8) * cos (pi / 8) - sin (pi / 8) * sin (pi / 8) = sqrt 2 / 2"
  "cos (pi / 8) * cos (pi / 8) + sin (pi / 8) * sin (pi / 8) = 1"
proof -
  have "sin (2 * (pi / 8)) = sqrt 2 / 2" using sin_45 by simp
  then show "2 * sin (pi / 8) * cos (pi / 8) = sqrt 2 / 2"
    by (simp only: sin_double)
  have "cos (2 * (pi / 8)) = sqrt 2 / 2" using cos_45 by simp
  then show "cos (pi / 8) * cos (pi / 8) - sin (pi / 8) * sin (pi / 8) = sqrt 2 / 2"
    by (simp only: cos_double power2_eq_square)
  show "cos (pi / 8) * cos (pi / 8) + sin (pi / 8) * sin (pi / 8) = 1"
    using sin_cos_squared_add2[of "pi / 8"] by (simp add: power2_eq_square)
qed

lemma simulate_ab:
  "simulate [H 0, CNot 0 1] (1, 0, 0, 0) = Some (1 / sqrt 2, 0, 0, 1 / sqrt 2)"
  by (simp add: hadamard_def)

lemma simulate_ab':
  "simulate [H 0, CNot 0 1, H 1] (1, 0, 0, 0) = Some (1 / 2, 1 / 2, 1 / 2, - (1 / 2))"
  by (simp add: hadamard_def half)

lemma simulate_a'b:
  "simulate [H 0, CNot 0 1, Ry 0 (2 * pi / 8), H 0] (1, 0, 0, 0) =
     Some ((cos (pi / 8) + sin (pi / 8)) / 2, (cos (pi / 8) - sin (pi / 8)) / 2,
           (cos (pi / 8) - sin (pi / 8)) / 2, - ((cos (pi / 8) + sin (pi / 8)) / 2))"
  by (simp add: hadamard_def y_rotation_def half field_simps)

lemma simulate_a'b':
  "simulate [H 0, CNot 0 1, Ry 0 (2 * pi / 8), H 0, H 1] (1, 0, 0, 0) =
     Some (cos (pi / 8) / sqrt 2, sin (pi / 8) / sqrt 2,
           - (sin (pi / 8) / sqrt 2), cos (pi / 8) / sqrt 2)"
  by (simp add: hadamard_def y_rotation_def half field_simps)

lemma half_square:
  fixes x y :: real
  shows "(x + y) / 2 * ((x + y) / 2) = (x * x + y * y + 2 * (y * x)) / 4"
    and "(x - y) / 2 * ((x - y) / 2) = (x * x + y * y - 2 * (y * x)) / 4"
    and "x / sqrt 2 * (x / sqrt 2) = x * x / 2"
  by (simp_all add: algebra_simps)

lemma eighth_angle_squares:
  "(cos (pi / 8) + sin (pi / 8)) / 2 * ((cos (pi / 8) + sin (pi / 8)) / 2) = (2 + sqrt 2) / 8"
  "(cos (pi / 8) - sin (pi / 8)) / 2 * ((cos (pi / 8) - sin (pi / 8)) / 2) = (2 - sqrt 2) / 8"
  "cos (pi / 8) / sqrt 2 * (cos (pi / 8) / sqrt 2) = (2 + sqrt 2) / 8"
  "sin (pi / 8) / sqrt 2 * (sin (pi / 8) / sqrt 2) = (2 - sqrt 2) / 8"
proof -
  define cc where "cc = cos (pi / 8) * cos (pi / 8)"
  define ss where "ss = sin (pi / 8) * sin (pi / 8)"
  define sc where "sc = sin (pi / 8) * cos (pi / 8)"
  have e: "2 * sc = sqrt 2 / 2" "cc - ss = sqrt 2 / 2" "cc + ss = 1"
    using eighth_angle by (simp_all add: cc_def ss_def sc_def)
  have "(cos (pi / 8) + sin (pi / 8)) / 2 * ((cos (pi / 8) + sin (pi / 8)) / 2) =
      (cc + ss + 2 * sc) / 4"
    unfolding cc_def ss_def sc_def by (rule half_square)
  also have "\<dots> = (2 + sqrt 2) / 8" using e by argo
  finally show "(cos (pi / 8) + sin (pi / 8)) / 2 * ((cos (pi / 8) + sin (pi / 8)) / 2) =
      (2 + sqrt 2) / 8" .
  have "(cos (pi / 8) - sin (pi / 8)) / 2 * ((cos (pi / 8) - sin (pi / 8)) / 2) =
      (cc + ss - 2 * sc) / 4"
    unfolding cc_def ss_def sc_def by (rule half_square)
  also have "\<dots> = (2 - sqrt 2) / 8" using e by argo
  finally show "(cos (pi / 8) - sin (pi / 8)) / 2 * ((cos (pi / 8) - sin (pi / 8)) / 2) =
      (2 - sqrt 2) / 8" .
  have "cos (pi / 8) / sqrt 2 * (cos (pi / 8) / sqrt 2) = cc / 2"
    unfolding cc_def by (rule half_square)
  also have "\<dots> = (2 + sqrt 2) / 8" using e by argo
  finally show "cos (pi / 8) / sqrt 2 * (cos (pi / 8) / sqrt 2) = (2 + sqrt 2) / 8" .
  have "sin (pi / 8) / sqrt 2 * (sin (pi / 8) / sqrt 2) = ss / 2"
    unfolding ss_def by (rule half_square)
  also have "\<dots> = (2 - sqrt 2) / 8" using e by argo
  finally show "sin (pi / 8) / sqrt 2 * (sin (pi / 8) / sqrt 2) = (2 - sqrt 2) / 8" .
qed

lemma distribution_a'b:
  "probabilities ((cos (pi / 8) + sin (pi / 8)) / 2, (cos (pi / 8) - sin (pi / 8)) / 2,
                  (cos (pi / 8) - sin (pi / 8)) / 2, - ((cos (pi / 8) + sin (pi / 8)) / 2)) =
     [(2 + sqrt 2) / 8, (2 - sqrt 2) / 8, (2 - sqrt 2) / 8, (2 + sqrt 2) / 8]"
  unfolding probabilities.simps minus_mult_minus eighth_angle_squares ..

lemma distribution_a'b':
  "probabilities (cos (pi / 8) / sqrt 2, sin (pi / 8) / sqrt 2,
                  - (sin (pi / 8) / sqrt 2), cos (pi / 8) / sqrt 2) =
     [(2 + sqrt 2) / 8, (2 - sqrt 2) / 8, (2 - sqrt 2) / 8, (2 + sqrt 2) / 8]"
  unfolding probabilities.simps minus_mult_minus eighth_angle_squares ..

lemma default_tasks:
  "fst (run_chsh_inequality LocalSimulator_run
     [\<lparr>instructions = [H 0, CNot 0 1], result_types = [Probability]\<rparr>,
      \<lparr>instructions = [H 0, CNot 0 1, H 1], result_types = [Probability]\<rparr>,
      \<lparr>instructions = [H 0, CNot 0 1, Ry 0 (2 * pi / 8), H 0], result_types = [Probability]\<rparr>,
      \<lparr>instructions = [H 0, CNot 0 1, Ry 0 (2 * pi / 8), H 0, H 1],
       result_types = [Probability]\<rparr>] () 0) =
   map completed
     [[1 / 2, 0, 0, 1 / 2], [1 / 4, 1 / 4, 1 / 4, 1 / 4],
      [(2 + sqrt 2) / 8, (2 - sqrt 2) / 8, (2 - sqrt 2) / 8, (2 + sqrt 2) / 8],
      [(2 + sqrt 2) / 8, (2 - sqrt 2) / 8, (2 - sqrt 2) / 8, (2 + sqrt 2) / 8]]"
  unfolding run_chsh_inequality.simps LocalSimulator_run_def circuit.simps
    simulate_ab simulate_ab' simulate_a'b simulate_a'b' option.case
    list.map distribution_a'b distribution_a'b'
  by (simp add: completed_def)

subsection \<open>The circuit set builder\<close>

text \<open>
  C1. The builder is meant to apply a basis rotation to a qubit exactly when that qubit's
  angle is not zero. The code does so for the first qubit only. On the default arguments
  the angles of the second qubit, \<open>b = pi / 8\<close> and \<open>b' = 3 * pi / 8\<close>, are not zero,
  yet the four circuits are the ones listed below: their only rotations are on qubit 0, by
  the angle \<open>a'\<close>, and no circuit rotates qubit 1.
\<close>

theorem default_circuits_no_rotation_on_qubit1:
  "pi / 8 \<noteq> 0 \<and> 3 * pi / 8 \<noteq> 0
   \<and> create_chsh_inequality_circuits_default =
     Inr [\<lparr>instructions = [H 0, CNot 0 1], result_types = [Probability]\<rparr>,
          \<lparr>instructions = [H 0, CNot 0 1, H 1], result_types = [Probability]\<rparr>,
          \<lparr>instructions = [H 0, CNot 0 1, Ry 0 (2 * pi / 8), H 0],
           result_types = [Probability]\<rparr>,
          \<lparr>instructions = [H 0, CNot 0 1, Ry 0 (2 * pi / 8), H 0, H 1],
           result_types = [Probability]\<rparr>]
   \<and> map_sum id (map rotations) create_chsh_inequality_circuits_default =
     Inr [[], [], [(0, 2 * pi / 8)], [(0, 2 * pi / 8)]]"
  by (simp add: default_circuits rotations_def)

text \<open>
  C7. The builder does not return four circuits for every choice of arguments: when both
  qubits are qubit 0, the SDK refuses the controlled gate and the call raises.
\<close>

theorem create_chsh_inequality_circuits_equal_qubits_raises:
  "create_chsh_inequality_circuits 0 0 0 (2 * pi / 8) (pi / 8) (3 * pi / 8) = Inl ValueError"
  by (simp add: create_chsh_inequality_circuits_def bell_singlet_rotated_basis_eq and_then_def)

text \<open>
  C7, as amended. For two qubits that are distinct and not negative, and any angles, the
  builder returns a list of exactly four circuits; so does the call with every argument
  left at its default.
\<close>

theorem create_chsh_inequality_circuits_length:
  assumes "0 \<le> qubit0" and "0 \<le> qubit1" and "qubit0 \<noteq> qubit1"
  shows "(\<exists>circuits. create_chsh_inequality_circuits qubit0 qubit1 a a' b b' = Inr circuits
            \<and> length circuits = 4)
         \<and> (\<exists>circuits. create_chsh_inequality_circuits_default = Inr circuits
            \<and> length circuits = 4)"
  using assms
  by (simp add: create_chsh_inequality_circuits_default_def create_chsh_inequality_circuits_def
      bell_singlet_rotated_basis_eq and_then_def h_def)

theorem create_chsh_inequality_circuits_length_witness:
  "(0::int) \<le> 2 \<and> (0::int) \<le> 5 \<and> (2::int) \<noteq> 5
   \<and> (\<exists>circuits. create_chsh_inequality_circuits 2 5 0 1 0 1 = Inr circuits
         \<and> length circuits = 4)"
  using create_chsh_inequality_circuits_length[of 2 5 0 1 0 1] by simp

text \<open>
  C10. The argument \<^verbatim>\<open>rotation1\<close> of \<^verbatim>\<open>bell_singlet_rotated_basis\<close> has no effect:
  two calls that differ only in it have the same outcome. When the SDK refuses the qubits
  the call raises; otherwise the circuit has no rotation when \<^verbatim>\<open>rotation0\<close> is zero and
  exactly one, on \<^verbatim>\<open>qubit0\<close> by \<^verbatim>\<open>rotation0\<close>, when it is not.
\<close>

theorem rotation1_has_no_effect:
  "bell_singlet_rotated_basis qubit0 qubit1 rotation0 rotation1 =
     bell_singlet_rotated_basis qubit0 qubit1 rotation0 rotation1'
   \<and> map_sum id rotations (bell_singlet_rotated_basis qubit0 qubit1 rotation0 rotation1) =
     (if qubit0 < 0 \<or> qubit1 < 0 \<or> qubit0 = qubit1 then Inl ValueError
      else Inr (if rotation0 = 0 then [] else [(qubit0, rotation0)]))"
  by (simp add: bell_singlet_rotated_basis_eq rotations_def)

subsection \<open>Task submission\<close>

text \<open>
  C9. For every list of circuits, every device and every shot count, the device's
  \<open>run\<close> is called once per circuit, in the order of the circuits and with the given
  shot count, and the returned list holds the handles of these calls in the same order,
  one per circuit. The journal of a journalled device, empty at the start, is read after
  the submission; journalling changes neither the handles nor the device's own state.
\<close>

theorem run_chsh_inequality_submits_each_once:
  "run_chsh_inequality (journalled run) circuits (device, []) shots =
     (fst (run_chsh_inequality run circuits device shots),
      snd (run_chsh_inequality run circuits device shots),
      map (\<lambda>(circ, task). (circ, shots, task))
        (zip circuits (fst (run_chsh_inequality run circuits device shots))))
   \<and> length (fst (run_chsh_inequality run circuits device shots)) = length circuits"
proof
  show "run_chsh_inequality (journalled run) circuits (device, []) shots =
     (fst (run_chsh_inequality run circuits device shots),
      snd (run_chsh_inequality run circuits device shots),
      map (\<lambda>(circ, task). (circ, shots, task))
        (zip circuits (fst (run_chsh_inequality run circuits device shots))))"
    using run_journalled[of run circuits device "[]" shots] by simp
next
  show "length (fst (run_chsh_inequality run circuits device shots)) = length circuits"
    by (rule run_length)
qed

subsection \<open>The result aggregator\<close>

text \<open>
  C2. Take four completed tasks with well-formed distributions and let the distribution at
  position \<open>i\<close> be \<open>[P00, P01, P10, P11]\<close>, four non-negative values that sum to one.
  Then the aggregator returns, and the expectation value it returns for this distribution
  is \<open>(P00 + P11) - (P01 + P10)\<close> and lies between \<open>-1\<close> and \<open>1\<close>.
\<close>

theorem expectation_value_formula_and_range:
  assumes "map first_value tasks = map Inr results"
    and "length results = 4"
    and "\<forall>d \<in> set results. 4 \<le> length d"
    and "i < 4"
    and "results ! i = [P00, P01, P10, P11]"
    and "0 \<le> P00" "0 \<le> P01" "0 \<le> P10" "0 \<le> P11"
    and "P00 + P01 + P10 + P11 = 1"
  shows "\<exists>chsh_value E_ab E_ab' E_a'b E_a'b'.
     fst (get_chsh_results tasks verbose stdout) =
       Inr (chsh_value, results, E_ab, E_ab', E_a'b, E_a'b')
     \<and> [E_ab, E_ab', E_a'b, E_a'b'] ! i = (P00 + P11) - (P01 + P10)
     \<and> - 1 \<le> [E_ab, E_ab', E_a'b, E_a'b'] ! i
     \<and> [E_ab, E_ab', E_a'b, E_a'b'] ! i \<le> 1"
proof -
  obtain d0 d1 d2 d3 where rs: "results = [d0, d1, d2, d3]"
    using assms(2) by (auto simp: length_Suc_conv numeral_eq_Suc)
  have fv: "map first_value tasks = map Inr [d0, d1, d2, d3]"
    and len: "4 \<le> length d0" "4 \<le> length d1" "4 \<le> length d2" "4 \<le> length d3"
    using assms(1,3) by (simp_all add: rs)
  define E where "E = map (\<lambda>d. d ! 0 + d ! 3 - (d ! 1 + d ! 2)) [d0, d1, d2, d3]"
  have run: "fst (get_chsh_results tasks verbose stdout) =
      Inr (E ! 0 - E ! 1 + E ! 2 + E ! 3, results, E ! 0, E ! 1, E ! 2, E ! 3)"
    by (simp add: get_chsh_results_four[OF fv len] rs E_def)
  have "E ! i = (results ! i) ! 0 + (results ! i) ! 3 - ((results ! i) ! 1 + (results ! i) ! 2)"
    using assms(4) by (simp add: E_def rs nth_Cons')
  then have val: "E ! i = (P00 + P11) - (P01 + P10)"
    by (simp add: assms(5))
  have same: "[E ! 0, E ! 1, E ! 2, E ! 3] ! i = E ! i"
    using assms(4) by (simp add: E_def nth_Cons')
  have bounds: "- 1 \<le> (P00 + P11) - (P01 + P10)" "(P00 + P11) - (P01 + P10) \<le> 1"
    using assms(6-) by linarith+
  show ?thesis
    using run val same bounds by (intro exI conjI) (assumption | simp)+
qed

theorem expectation_value_formula_and_range_witness:
  "\<exists>chsh_value E_ab E_ab' E_a'b E_a'b'.
     fst (get_chsh_results
       (map completed [[1/2, 0, 0, 1/2], [1/4, 1/4, 1/4, 1/4], [1/2, 0, 0, 1/2], [0, 1/2, 1/2, 0]])
       False []) =
       Inr (chsh_value,
            [[1/2, 0, 0, 1/2], [1/4, 1/4, 1/4, 1/4], [1/2, 0, 0, 1/2], [0, 1/2, 1/2, 0]],
            E_ab, E_ab', E_a'b, E_a'b')
     \<and> [E_ab, E_ab', E_a'b, E_a'b'] ! 3 = (0 + 0) - (1/2 + 1/2)
     \<and> - 1 \<le> [E_ab, E_ab', E_a'b, E_a'b'] ! 3
     \<and> [E_ab, E_ab', E_a'b, E_a'b'] ! 3 \<le> 1"
  using expectation_value_formula_and_range[of
      "map completed [[1/2, 0, 0, 1/2], [1/4, 1/4, 1/4, 1/4], [1/2, 0, 0, 1/2], [0, 1/2, 1/2, 0]]"
      "[[1/2, 0, 0, 1/2], [1/4, 1/4, 1/4, 1/4], [1/2, 0, 0, 1/2], [0, 1/2, 1/2, 0]]"
      3 0 "1/2" "1/2" 0 False "[]"]
  by (simp add: completed_def)

text \<open>
  C3. For four completed tasks whose distributions, in the order (a,b), (a,b'), (a',b),
  (a',b'), have four values each, the aggregator returns, and the statistic it returns is
  \<open>E_ab - E_ab' + E_a'b + E_a'b'\<close>, where each expectation value is the one of the
  distribution at its position.
\<close>

theorem chsh_value_combination:
  assumes "map first_value tasks = map Inr [d_ab, d_ab', d_a'b, d_a'b']"
    and "length d_ab = 4" "length d_ab' = 4" "length d_a'b = 4" "length d_a'b' = 4"
  shows "\<exists>chsh_value E_ab E_ab' E_a'b E_a'b'.
     fst (get_chsh_results tasks verbose stdout) =
       Inr (chsh_value, [d_ab, d_ab', d_a'b, d_a'b'], E_ab, E_ab', E_a'b, E_a'b')
     \<and> E_ab = (d_ab ! 0 + d_ab ! 3) - (d_ab ! 1 + d_ab ! 2)
     \<and> E_ab' = (d_ab' ! 0 + d_ab' ! 3) - (d_ab' ! 1 + d_ab' ! 2)
     \<and> E_a'b = (d_a'b ! 0 + d_a'b ! 3) - (d_a'b ! 1 + d_a'b ! 2)
     \<and> E_a'b' = (d_a'b' ! 0 + d_a'b' ! 3) - (d_a'b' ! 1 + d_a'b' ! 2)
     \<and> chsh_value = E_ab - E_ab' + E_a'b + E_a'b'"
  using assms by (simp add: get_chsh_results_four)

theorem chsh_value_combination_witness:
  "\<exists>chsh_value E_ab E_ab' E_a'b E_a'b'.
     fst (get_chsh_results
       (map completed [[1/2, 0, 0, 1/2], [1/4, 1/4, 1/4, 1/4], [1/2, 0, 0, 1/2], [0, 1/2, 1/2, 0]])
       True []) =
       Inr (chsh_value,
            [[1/2, 0, 0, 1/2], [1/4, 1/4, 1/4, 1/4], [1/2, 0, 0, 1/2], [0, 1/2, 1/2, 0]],
            E_ab, E_ab', E_a'b, E_a'b')
     \<and> E_ab = 1 \<and> E_ab' = 0 \<and> E_a'b = 1 \<and> E_a'b' = - 1 \<and> chsh_value = 1"
  using chsh_value_combination[of
      "map completed [[1/2, 0, 0, 1/2], [1/4, 1/4, 1/4, 1/4], [1/2, 0, 0, 1/2], [0, 1/2, 1/2, 0]]"
      "[1/2, 0, 0, 1/2]" "[1/4, 1/4, 1/4, 1/4]" "[1/2, 0, 0, 1/2]" "[0, 1/2, 1/2, 0]" True "[]"]
  by (simp add: completed_def)

text \<open>
  C4. If every one of the four distributions has \<open>P00 + P11 = 1\<close> and
  \<open>P01 + P10 = 0\<close>, as when only the outcome 00 was observed, then all four expectation
  values are 1 and the statistic is exactly 2. The comparison is the strict
  \<open>chsh_value > 2\<close>, so the verbose run prints the line saying that the inequality is not
  violated after the two formatted lines; the silent run prints nothing.
\<close>

theorem all_outcomes_00_not_violated:
  assumes "map first_value tasks = map Inr [d_ab, d_ab', d_a'b, d_a'b']"
    and "\<forall>d \<in> set [d_ab, d_ab', d_a'b, d_a'b'].
           length d = 4 \<and> d ! 0 + d ! 3 = 1 \<and> d ! 1 + d ! 2 = 0"
  shows "get_chsh_results tasks True stdout =
     (Inr (2, [d_ab, d_ab', d_a'b, d_a'b'], 1, 1, 1, 1),
      stdout @ [Expectations 1 1 1 1, Inequality 2, Text ''CHSH inequality is not violated.''])
   \<and> get_chsh_results tasks False stdout =
     (Inr (2, [d_ab, d_ab', d_a'b, d_a'b'], 1, 1, 1, 1), stdout)"
  using assms by (simp add: get_chsh_results_four report_def)

theorem all_outcomes_00_not_violated_witness:
  "get_chsh_results (map completed [[1, 0, 0, 0], [1, 0, 0, 0], [1, 0, 0, 0], [1, 0, 0, 0]])
     True [] =
     (Inr (2, [[1, 0, 0, 0], [1, 0, 0, 0], [1, 0, 0, 0], [1, 0, 0, 0]], 1, 1, 1, 1),
      [Expectations 1 1 1 1, Inequality 2, Text ''CHSH inequality is not violated.''])
   \<and> get_chsh_results (map completed [[1, 0, 0, 0], [1, 0, 0, 0], [1, 0, 0, 0], [1, 0, 0, 0]])
     False [] =
     (Inr (2, [[1, 0, 0, 0], [1, 0, 0, 0], [1, 0, 0, 0], [1, 0, 0, 0]], 1, 1, 1, 1), [])"
  using all_outcomes_00_not_violated[of
      "map completed [[1, 0, 0, 0], [1, 0, 0, 0], [1, 0, 0, 0], [1, 0, 0, 0]]"
      "[1, 0, 0, 0]" "[1, 0, 0, 0]" "[1, 0, 0, 0]" "[1, 0, 0, 0]" "[]"]
  by (simp add: completed_def)

text \<open>
  C6. For every list of four completed tasks with well-formed distributions (at least
  four values each), the aggregator returns a tuple whose components are, in this order:
  the statistic, the list of the distributions exactly as they were read from the tasks,
  and the four expectation values.
\<close>

theorem get_chsh_results_output_order:
  assumes "length tasks = 4"
    and "map first_value tasks = map Inr results"
    and "\<forall>d \<in> set results. 4 \<le> length d"
  shows "fst (get_chsh_results tasks verbose stdout) =
     Inr (results ! 0 ! 0 + results ! 0 ! 3 - (results ! 0 ! 1 + results ! 0 ! 2)
          - (results ! 1 ! 0 + results ! 1 ! 3 - (results ! 1 ! 1 + results ! 1 ! 2))
          + (results ! 2 ! 0 + results ! 2 ! 3 - (results ! 2 ! 1 + results ! 2 ! 2))
          + (results ! 3 ! 0 + results ! 3 ! 3 - (results ! 3 ! 1 + results ! 3 ! 2)),
          results,
          results ! 0 ! 0 + results ! 0 ! 3 - (results ! 0 ! 1 + results ! 0 ! 2),
          results ! 1 ! 0 + results ! 1 ! 3 - (results ! 1 ! 1 + results ! 1 ! 2),
          results ! 2 ! 0 + results ! 2 ! 3 - (results ! 2 ! 1 + results ! 2 ! 2),
          results ! 3 ! 0 + results ! 3 ! 3 - (results ! 3 ! 1 + results ! 3 ! 2))"
proof -
  have "length results = 4"
    using assms(1,2) by (metis length_map)
  then obtain d0 d1 d2 d3 where rs: "results = [d0, d1, d2, d3]"
    by (auto simp: length_Suc_conv numeral_eq_Suc)
  show ?thesis
    using assms(2,3) unfolding rs by (simp add: get_chsh_results_four)
qed

theorem get_chsh_results_output_order_witness:
  "fst (get_chsh_results
     (map completed [[1/2, 0, 0, 1/2], [1/4, 1/4, 1/4, 1/4], [1/2, 0, 0, 1/2], [0, 1/2, 1/2, 0]])
     True []) =
   Inr (1, [[1/2, 0, 0, 1/2], [1/4, 1/4, 1/4, 1/4], [1/2, 0, 0, 1/2], [0, 1/2, 1/2, 0]],
        1, 0, 1, - 1)"
  using get_chsh_results_output_order[of
      "map completed [[1/2, 0, 0, 1/2], [1/4, 1/4, 1/4, 1/4], [1/2, 0, 0, 1/2], [0, 1/2, 1/2, 0]]"
      "[[1/2, 0, 0, 1/2], [1/4, 1/4, 1/4, 1/4], [1/2, 0, 0, 1/2], [0, 1/2, 1/2, 0]]" True "[]"]
  by (simp add: completed_def)

text \<open>
  C8. Running the aggregator a second time on the same tasks with the same verbosity,
  in the state the first run left, returns the same value as the first run (the same
  statistic, distributions and expectation values, or the same exception) and prints the
  same lines again.
\<close>

theorem get_chsh_results_repeatable:
  "fst (get_chsh_results tasks verbose (snd (get_chsh_results tasks verbose stdout))) =
     fst (get_chsh_results tasks verbose stdout)
   \<and> snd (get_chsh_results tasks verbose (snd (get_chsh_results tasks verbose stdout))) =
     snd (get_chsh_results tasks verbose stdout) @
       drop (length stdout) (snd (get_chsh_results tasks verbose stdout))"
proof -
  have a: "get_chsh_results tasks verbose stdout =
     (fst (get_chsh_results tasks verbose []), stdout @ snd (get_chsh_results tasks verbose []))"
    by (rule get_chsh_results_stdout)
  have b: "get_chsh_results tasks verbose (stdout @ snd (get_chsh_results tasks verbose [])) =
     (fst (get_chsh_results tasks verbose []),
      (stdout @ snd (get_chsh_results tasks verbose [])) @ snd (get_chsh_results tasks verbose []))"
    by (rule get_chsh_results_stdout)
  show ?thesis
    unfolding a fst_conv snd_conv b by simp
qed

subsection \<open>The end-to-end run\<close>

text \<open>
  C5. The exact run of the four default circuits returns four distributions, but the
  expectation values are \<open>1\<close>, \<open>0\<close>, \<open>sqrt 2 / 2\<close> and \<open>sqrt 2 / 2\<close> and the
  statistic is \<open>1 + sqrt 2\<close>, more than 0.4 below \<open>2 * sqrt 2\<close>: the circuits never
  rotate the second qubit by \<open>b\<close> or \<open>b'\<close>.
\<close>

theorem default_run_statistic:
  "fst (test_get_chsh_results stdout) =
     Inr (1 + sqrt 2,
          [[1 / 2, 0, 0, 1 / 2], [1 / 4, 1 / 4, 1 / 4, 1 / 4],
           [(2 + sqrt 2) / 8, (2 - sqrt 2) / 8, (2 - sqrt 2) / 8, (2 + sqrt 2) / 8],
           [(2 + sqrt 2) / 8, (2 - sqrt 2) / 8, (2 - sqrt 2) / 8, (2 + sqrt 2) / 8]],
          1, 0, sqrt 2 / 2, sqrt 2 / 2)
   \<and> 4 / 10 < 2 * sqrt 2 - (1 + sqrt 2)"
proof
  have run: "test_get_chsh_results stdout =
      get_chsh_results (map completed
        [[1 / 2, 0, 0, 1 / 2], [1 / 4, 1 / 4, 1 / 4, 1 / 4],
         [(2 + sqrt 2) / 8, (2 - sqrt 2) / 8, (2 - sqrt 2) / 8, (2 + sqrt 2) / 8],
         [(2 + sqrt 2) / 8, (2 - sqrt 2) / 8, (2 - sqrt 2) / 8, (2 + sqrt 2) / 8]])
        True stdout"
    unfolding test_get_chsh_results_def default_circuits sum.case default_tasks Let_def ..
  show "fst (test_get_chsh_results stdout) =
     Inr (1 + sqrt 2,
          [[1 / 2, 0, 0, 1 / 2], [1 / 4, 1 / 4, 1 / 4, 1 / 4],
           [(2 + sqrt 2) / 8, (2 - sqrt 2) / 8, (2 - sqrt 2) / 8, (2 + sqrt 2) / 8],
           [(2 + sqrt 2) / 8, (2 - sqrt 2) / 8, (2 - sqrt 2) / 8, (2 + sqrt 2) / 8]],
          1, 0, sqrt 2 / 2, sqrt 2 / 2)"
    unfolding run
    by (subst get_chsh_results_four[where ?d0.0="[1 / 2, 0, 0, 1 / 2]"
          and ?d1.0="[1 / 4, 1 / 4, 1 / 4, 1 / 4]"
          and ?d2.0="[(2 + sqrt 2) / 8, (2 - sqrt 2) / 8, (2 - sqrt 2) / 8, (2 + sqrt 2) / 8]"
          and ?d3.0="[(2 + sqrt 2) / 8, (2 - sqrt 2) / 8, (2 - sqrt 2) / 8, (2 + sqrt 2) / 8]"])
      (simp_all add: completed_def field_simps)
next
  have "(14 / 10)\<^sup>2 < (2::real)" by (simp add: power2_eq_square)
  then have "14 / 10 < sqrt 2"
    by (rule real_less_rsqrt)
  then show "4 / 10 < 2 * sqrt 2 - (1 + sqrt 2)" by simp
qed

end
